theory Spec2Isabelle
  imports Complex_Main
begin

section \<open>CenterCrop (kornia/augmentation/_2d/geometric/center_crop.py)\<close>

text \<open>
  A shallow embedding of the class \<open>CenterCrop\<close>: its constructor and the methods
  \<open>generate_parameters\<close>, \<open>compute_transformation\<close>, \<open>apply_transform\<close> and
  \<open>inverse_transform\<close>. Every \<open>raise\<close> of the source, and every failure of the
  indexing operations it performs, is a value \<open>Inl e\<close> of the result type.
\<close>

subsection \<open>Errors and dynamically typed values\<close>

datatype error =
    PyException string
  | NotImplementedError string
  | KeyError string
  | IndexError
  | TypeError
  | ValueError
  | RuntimeError

text \<open>Values of keyword arguments (\<open>**kwargs\<close>) and of the options handed to the warp.\<close>

datatype py_val = PyStr string | PyBool bool | PyInt int | PyNone

subsection \<open>Tensors\<close>

text \<open>
  A four-dimensional tensor \<open>(B, C, H, W)\<close>: its shape and its elements in row-major
  order. Keeping the shape beside the elements keeps the spatial size of a tensor with
  an empty batch or no channel.
\<close>

record 'a tensor4 =
  dimB :: nat
  dimC :: nat
  dimH :: nat
  dimW :: nat
  data :: "'a list"

definition at4 :: "'a tensor4 \<Rightarrow> nat \<Rightarrow> nat \<Rightarrow> nat \<Rightarrow> nat \<Rightarrow> 'a" where
  "at4 t b c y x = data t ! (((b * dimC t + c) * dimH t + y) * dimW t + x)"

text \<open>\<open>input.shape\<close>, a \<open>torch.Size\<close>.\<close>

definition shape :: "'a tensor4 \<Rightarrow> nat list" where
  "shape t = [dimB t, dimC t, dimH t, dimW t]"

text \<open>
  A tensor holds as many elements as its shape says, and each of its dimensions is a
  signed 64-bit integer.
\<close>

definition valid_tensor :: "'a tensor4 \<Rightarrow> bool" where
  "valid_tensor t \<longleftrightarrow>
     length (data t) = dimB t * dimC t * dimH t * dimW t \<and>
     dimB t < 2 ^ 63 \<and> dimC t < 2 ^ 63 \<and> dimH t < 2 ^ 63 \<and> dimW t < 2 ^ 63"

text \<open>
  Corner tensors of shape \<open>(B, 4, 2)\<close> and dtype \<open>long\<close>: for each sample the four
  corners top-left, top-right, bottom-right, bottom-left, each a point \<open>(x, y)\<close>.
  \<open>corner k\<close> is the index \<open>[k]\<close> of the second axis, \<open>fst\<close> and \<open>snd\<close> are the
  indices \<open>[0]\<close> and \<open>[1]\<close> of the third.
\<close>

type_synonym point = "int \<times> int"
type_synonym box = "point \<times> point \<times> point \<times> point"

fun corner :: "nat \<Rightarrow> box \<Rightarrow> point" where
  "corner k (a, b, c, d) = (if k = 0 then a else if k = 1 then b else if k = 2 then c else d)"

text \<open>The parameter mapping \<open>Dict[str, torch.Tensor]\<close>.\<close>

type_synonym params = "string \<rightharpoonup> box list"

text \<open>Arithmetic on \<open>numpy.int64\<close> wraps around silently.\<close>

definition wrap64 :: "int \<Rightarrow> int" where
  "wrap64 v = (v + 2 ^ 63) mod 2 ^ 64 - 2 ^ 63"

subsection \<open>Slicing\<close>

text \<open>
  A slice \<open>a:b\<close> of an axis of length \<open>n\<close>: a negative bound counts from the end, both
  bounds are clamped to \<open>0..n\<close>, and a stop before the start gives the empty slice.
\<close>

definition slice_index :: "nat \<Rightarrow> int \<Rightarrow> nat" where
  "slice_index n i = nat (if i < 0 then max (i + int n) 0 else min i (int n))"

definition slice_bounds :: "nat \<Rightarrow> int \<Rightarrow> int \<Rightarrow> nat \<times> nat" where
  "slice_bounds n a b = (let s = slice_index n a in (s, max s (slice_index n b)))"

text \<open>\<open>input[..., ya:yb, xa:xb]\<close>, given the bounds of both slices.\<close>

definition slice_hw :: "'a tensor4 \<Rightarrow> nat \<times> nat \<Rightarrow> nat \<times> nat \<Rightarrow> 'a tensor4" where
  "slice_hw t ys xs =
     \<lparr>dimB = dimB t, dimC = dimC t, dimH = snd ys - fst ys, dimW = snd xs - fst xs,
      data = [at4 t b c y x.
                b \<leftarrow> [0..<dimB t], c \<leftarrow> [0..<dimC t],
                y \<leftarrow> [fst ys..<snd ys], x \<leftarrow> [fst xs..<snd xs]]\<rparr>"

text \<open>
  The right-hand side of \<open>out[i] = input[i : i + 1, :, ya:yb, xa:xb]\<close> for \<open>i < B\<close>, as
  the assignment stores it: the slice has shape \<open>(1, C, hs, ws)\<close>, the target \<open>out[i]\<close>
  has shape \<open>(C, h, w)\<close>, and the assignment broadcasts an axis of length 1 and fails
  on any other mismatch.
\<close>

definition crop_sample ::
  "'a tensor4 \<Rightarrow> nat \<Rightarrow> nat \<times> nat \<Rightarrow> nat \<times> nat \<Rightarrow> nat \<Rightarrow> nat \<Rightarrow> error + 'a list" where
  "crop_sample t i ys xs h w =
     (let hs = snd ys - fst ys; ws = snd xs - fst xs in
      if (hs = h \<or> hs = 1) \<and> (ws = w \<or> ws = 1)
      then Inr [at4 t i c (fst ys + (if hs = h then y else 0))
                          (fst xs + (if ws = w then x else 0)).
                  c \<leftarrow> [0..<dimC t], y \<leftarrow> [0..<h], x \<leftarrow> [0..<w]]
      else Inl RuntimeError)"

text \<open>
  The loop \<open>for i in range(B): out[i] = ...\<close> over the samples of \<open>out\<close>; it stops at
  the first error.
\<close>

fun crop_loop ::
  "(nat \<Rightarrow> error + 'a list) \<Rightarrow> nat list \<Rightarrow> 'a list list \<Rightarrow> error + 'a list list" where
  "crop_loop f [] out = Inr out"
| "crop_loop f (i # is) out =
     (case f i of Inl e \<Rightarrow> Inl e | Inr blk \<Rightarrow> crop_loop f is (out[i := blk]))"

text \<open>
  \<open>torch.empty(B, C, h, w)\<close>: \<open>B\<close> samples of \<open>C * h * w\<close> elements each, holding
  whatever the memory held; \<open>uninit k\<close> is the content of the \<open>k\<close>-th cell.
\<close>

definition torch_empty :: "(nat \<Rightarrow> 'a) \<Rightarrow> nat \<Rightarrow> nat \<Rightarrow> 'a list list" where
  "torch_empty uninit B n = map (\<lambda>b. map (\<lambda>k. uninit (b * n + k)) [0..<n]) [0..<B]"

subsection \<open>Collaborators outside this file\<close>

text \<open>
  Modelled from the spec: \<open>rg.center_crop_generator\<close> (kornia.augmentation.random_generator),
  which is not among the sources. The spec: it "computes integer center-aligned corner
  coordinates once (same for every sample in the batch, since the crop is
  deterministic)" and returns the src and dst corner tensors, the corners "ordered
  consistently (e.g., top-left, top-right, bottom-right, bottom-left)"; a size larger
  than the input "is not validated here".
\<close>

definition center_crop_generator :: "nat \<Rightarrow> nat \<Rightarrow> nat \<Rightarrow> int \<times> int \<Rightarrow> params" where
  "center_crop_generator batch_size height width size2 =
     (let dst_h = fst size2; dst_w = snd size2;
          start_x = (int width - dst_w) div 2;
          start_y = (int height - dst_h) div 2;
          end_x = start_x + dst_w - 1;
          end_y = start_y + dst_h - 1
      in [''src'' \<mapsto> replicate batch_size
                      ((start_x, start_y), (end_x, start_y), (end_x, end_y), (start_x, end_y)),
          ''dst'' \<mapsto> replicate batch_size
                      ((0, 0), (dst_w - 1, 0), (dst_w - 1, dst_h - 1), (0, dst_h - 1))])"

text \<open>
  Modelled from the spec: \<open>get_perspective_transform\<close> (kornia.geometry.transform), which
  is not among the sources. The spec: it "converts corner correspondences into a 3\<times>3
  projective transform per batch element". The solve of one correspondence (a
  four-point homography solve in the dtype of the input) is the parameter \<open>solve\<close>; a
  src and a dst of different batch sizes are no correspondence.
\<close>

definition get_perspective_transform ::
  "(box \<Rightarrow> box \<Rightarrow> 'a list list) \<Rightarrow> box list \<Rightarrow> box list \<Rightarrow> error + 'a list list list" where
  "get_perspective_transform solve src dst =
     (if length src = length dst then Inr (map (\<lambda>(s, d). solve s d) (zip src dst))
      else Inl ValueError)"

text \<open>
  Modelled from the spec: the solve for the correspondences of a crop. The spec: "exact
  solution for axis-aligned crop correspondences (affine, no perspective distortion) --
  effectively reduces to a translation+scale". It is meant for boxes with sides parallel
  to the axes and a src box wider and higher than one pixel.
\<close>

definition translation_scale :: "box \<Rightarrow> box \<Rightarrow> real list list" where
  "translation_scale s d =
     (let sx = real_of_int (fst (corner 1 d) - fst (corner 0 d)) /
               real_of_int (fst (corner 1 s) - fst (corner 0 s));
          sy = real_of_int (snd (corner 3 d) - snd (corner 0 d)) /
               real_of_int (snd (corner 3 s) - snd (corner 0 s))
      in [[sx, 0, real_of_int (fst (corner 0 d)) - sx * real_of_int (fst (corner 0 s))],
          [0, sy, real_of_int (snd (corner 0 d)) - sy * real_of_int (snd (corner 0 s))],
          [0, 0, 1]])"

text \<open>
  \<open>transform.expand(B, -1, -1)\<close> on a tensor of shape \<open>(n, 3, 3)\<close>: the tensor itself
  when \<open>n = B\<close>, its one matrix \<open>B\<close> times when \<open>n = 1\<close>, an error otherwise.
\<close>

definition expand_batch :: "nat \<Rightarrow> 'm list \<Rightarrow> error + 'm list" where
  "expand_batch B ms =
     (if length ms = B then Inr ms
      else if length ms = 1 then Inr (replicate B (hd ms))
      else Inl RuntimeError)"

text \<open>The shape \<open>(3, 3)\<close> of one matrix: three rows of three entries.\<close>

definition is_3x3 :: "'a list list \<Rightarrow> bool" where
  "is_3x3 m \<longleftrightarrow> length m = 3 \<and> list_all (\<lambda>r. length r = 3) m"

text \<open>
  Modelled from the spec: \<open>crop_by_transform_mat\<close> (kornia.geometry.transform), which is
  not among the sources. The spec: it "uses the transform matrix to warp the input into
  the output grid via interpolation", for the inverse "producing a tensor of the
  requested ... size". The value the interpolation gives one cell of the output grid
  (floating-point arithmetic) is the parameter \<open>warp_pixel\<close>.
\<close>

definition crop_by_transform_mat ::
  "('a tensor4 \<Rightarrow> 'a list list list \<Rightarrow> py_val \<Rightarrow> py_val \<Rightarrow> py_val \<Rightarrow>
      nat \<Rightarrow> nat \<Rightarrow> nat \<Rightarrow> nat \<Rightarrow> 'a) \<Rightarrow>
   'a tensor4 \<Rightarrow> 'a list list list \<Rightarrow> int \<times> int \<Rightarrow> py_val \<Rightarrow> py_val \<Rightarrow> py_val \<Rightarrow> 'a tensor4" where
  "crop_by_transform_mat warp_pixel tensor transform out_size mode padding_mode align_corners =
     \<lparr>dimB = dimB tensor, dimC = dimC tensor,
      dimH = nat (fst out_size), dimW = nat (snd out_size),
      data = [warp_pixel tensor transform mode padding_mode align_corners b c y x.
                b \<leftarrow> [0..<dimB tensor], c \<leftarrow> [0..<dimC tensor],
                y \<leftarrow> [0..<nat (fst out_size)], x \<leftarrow> [0..<nat (snd out_size)]]\<rparr>"

text \<open>
  Modelled from the spec: the interpolation inside \<open>crop_by_transform_mat\<close>, which is
  not among the sources, in exact arithmetic. The spec: the warp reconstructs "pixel
  values at transformed coordinates via interpolation", "bilinear by default", "with
  out-of-bounds regions filled by a zero-padding policy". The cell \<open>(y, x)\<close> of the
  output takes the point of the input that the matrix of its sample maps to \<open>(x, y)\<close>,
  and weighs the four cells around this point; a cell outside the input counts as 0. The
  options are not looked at. It is meant for matrices that can be inverted.
\<close>

definition pixel_or_zero :: "real tensor4 \<Rightarrow> nat \<Rightarrow> nat \<Rightarrow> int \<Rightarrow> int \<Rightarrow> real" where
  "pixel_or_zero t b c y x =
     (if 0 \<le> y \<and> y < int (dimH t) \<and> 0 \<le> x \<and> x < int (dimW t)
      then at4 t b c (nat y) (nat x) else 0)"

definition bilinear_zeros ::
  "real tensor4 \<Rightarrow> real list list list \<Rightarrow> py_val \<Rightarrow> py_val \<Rightarrow> py_val \<Rightarrow>
   nat \<Rightarrow> nat \<Rightarrow> nat \<Rightarrow> nat \<Rightarrow> real" where
  "bilinear_zeros tensor transform mode padding_mode align_corners b c y x =
     (if b < length transform \<and> length (transform ! b) = 2 \<and>
         length (transform ! b ! 0) = 3 \<and> length (transform ! b ! 1) = 3
      then
        let m = transform ! b;
            det = m ! 0 ! 0 * m ! 1 ! 1 - m ! 0 ! 1 * m ! 1 ! 0;
            u = real x - m ! 0 ! 2;
            v = real y - m ! 1 ! 2;
            xs = (m ! 1 ! 1 * u - m ! 0 ! 1 * v) / det;
            ys = (m ! 0 ! 0 * v - m ! 1 ! 0 * u) / det;
            x0 = \<lfloor>xs\<rfloor>;
            y0 = \<lfloor>ys\<rfloor>;
            fx = xs - of_int x0;
            fy = ys - of_int y0
        in (1 - fy) * (1 - fx) * pixel_or_zero tensor b c y0 x0 +
           (1 - fy) * fx * pixel_or_zero tensor b c y0 (x0 + 1) +
           fy * (1 - fx) * pixel_or_zero tensor b c (y0 + 1) x0 +
           fy * fx * pixel_or_zero tensor b c (y0 + 1) (x0 + 1)
      else 0)"

text \<open>
  The members of the enumeration \<open>Resample\<close> (kornia.constants) are known here by their
  \<open>name\<close>; \<open>Resample.get\<close> is a parameter of the constructor.
\<close>

datatype Resample = Resample (resample_name: string)

datatype resample_arg = ResampleStr string | ResampleInt int | ResampleEnum Resample

text \<open>\<open>str.lower\<close> on the letters of an identifier.\<close>

definition lower_char :: "char \<Rightarrow> char" where
  "lower_char c =
     (case map_of (zip ''ABCDEFGHIJKLMNOPQRSTUVWXYZ'' ''abcdefghijklmnopqrstuvwxyz'') c of
        None \<Rightarrow> c
      | Some l \<Rightarrow> l)"

definition str_lower :: "string \<Rightarrow> string" where
  "str_lower s = map lower_char s"

subsection \<open>The class\<close>

record flags =
  flag_resample :: Resample
  flag_cropping_mode :: string
  flag_align_corners :: bool
  flag_size :: "int \<times> int"

text \<open>
  The attributes of an instance. The first five are the arguments of
  \<open>super().__init__\<close>: the base class is not among the sources, and is taken to keep
  each argument under its name.
\<close>

record CenterCrop =
  self_p :: real
  self_return_transform :: bool
  self_same_on_batch :: bool
  self_p_batch :: real
  self_keepdim :: bool
  self_size :: "int \<times> int"
  self_flags :: flags

text \<open>
  The argument \<open>size\<close> of the constructor: an int, a tuple (of ints, of any length), or
  a value of another type, of which only the text of \<open>type(size)\<close> matters.
\<close>

datatype size_arg = SizeInt int | SizeTuple "int list" | SizeOther string

definition CenterCrop_init ::
  "(resample_arg \<Rightarrow> error + Resample) \<Rightarrow> size_arg \<Rightarrow> bool \<Rightarrow> resample_arg \<Rightarrow> bool \<Rightarrow>
   real \<Rightarrow> bool \<Rightarrow> string \<Rightarrow> error + CenterCrop" where
  "CenterCrop_init Resample_get size1 align_corners resample return_transform p keepdim
     cropping_mode =
     (case (case size1 of
              SizeTuple t \<Rightarrow> if length t < 2 then Inl IndexError else Inr (t ! 0, t ! 1)
            | SizeInt s \<Rightarrow> Inr (s, s)
            | SizeOther ty \<Rightarrow>
                Inl (PyException
                  (''Invalid size type. Expected (int, tuple(int, int). Got: '' @ ty @ ''.''))) of
        Inl e \<Rightarrow> Inl e
      | Inr sz \<Rightarrow>
          (case Resample_get resample of
             Inl e \<Rightarrow> Inl e
           | Inr r \<Rightarrow>
               Inr \<lparr>self_p = 1, self_return_transform = return_transform,
                    self_same_on_batch = True, self_p_batch = p, self_keepdim = keepdim,
                    self_size = sz,
                    self_flags = \<lparr>flag_resample = r, flag_cropping_mode = cropping_mode,
                                  flag_align_corners = align_corners, flag_size = sz\<rparr>\<rparr>))"

text \<open>
  \<open>generate_parameters\<close>: \<open>batch_shape[0]\<close>, \<open>batch_shape[-2]\<close> and \<open>batch_shape[-1]\<close>
  exist when the shape has two entries or more.
\<close>

definition generate_parameters :: "CenterCrop \<Rightarrow> nat list \<Rightarrow> error + params" where
  "generate_parameters self batch_shape =
     (if length batch_shape < 2 then Inl IndexError
      else Inr (center_crop_generator (batch_shape ! 0)
                  (batch_shape ! (length batch_shape - 2))
                  (batch_shape ! (length batch_shape - 1)) (self_size self)))"

definition compute_transformation ::
  "(box \<Rightarrow> box \<Rightarrow> 'a list list) \<Rightarrow> 'a tensor4 \<Rightarrow> params \<Rightarrow> error + 'a list list list" where
  "compute_transformation solve input params =
     (case params ''src'' of
        None \<Rightarrow> Inl (KeyError ''src'')
      | Some src \<Rightarrow>
          (case params ''dst'' of
             None \<Rightarrow> Inl (KeyError ''dst'')
           | Some dst \<Rightarrow>
               (case get_perspective_transform solve src dst of
                  Inl e \<Rightarrow> Inl e
                | Inr transform \<Rightarrow> expand_batch (dimB input) transform)))"

text \<open>
  The two ways of the slice mode. \<open>x1\<close>, \<open>x2\<close>, \<open>y1\<close>, \<open>y2\<close> are the arrays
  \<open>src[:, 0, 0]\<close>, \<open>src[:, 1, 0] + 1\<close>, \<open>src[:, 0, 1]\<close>, \<open>src[:, 3, 1] + 1\<close>.
\<close>

definition x1 :: "box list \<Rightarrow> int list" where
  "x1 src = map (\<lambda>s. fst (corner 0 s)) src"

definition x2 :: "box list \<Rightarrow> int list" where
  "x2 src = map (\<lambda>s. wrap64 (fst (corner 1 s) + 1)) src"

definition y1 :: "box list \<Rightarrow> int list" where
  "y1 src = map (\<lambda>s. snd (corner 0 s)) src"

definition y2 :: "box list \<Rightarrow> int list" where
  "y2 src = map (\<lambda>s. wrap64 (snd (corner 3 s) + 1)) src"

text \<open>\<open>return input[..., y1[0]:y2[0], x1[0]:x2[0]]\<close>; index 0 of an empty array fails.\<close>

definition slice_shared :: "'a tensor4 \<Rightarrow> box list \<Rightarrow> error + 'a tensor4" where
  "slice_shared input src =
     (if src = [] then Inl IndexError
      else Inr (slice_hw input
                  (slice_bounds (dimH input) (y1 src ! 0) (y2 src ! 0))
                  (slice_bounds (dimW input) (x1 src ! 0) (x2 src ! 0))))"

text \<open>
  \<open>out = torch.empty(B, C, *self.flags["size"], ...)\<close>, which fails on a negative size,
  then the loop over \<open>range(B)\<close>; \<open>y1[i]\<close> fails when src has no row \<open>i\<close>.
\<close>

definition slice_per_sample ::
  "(nat \<Rightarrow> 'a) \<Rightarrow> 'a tensor4 \<Rightarrow> box list \<Rightarrow> int \<times> int \<Rightarrow> error + 'a tensor4" where
  "slice_per_sample uninit input src size2 =
     (if fst size2 < 0 \<or> snd size2 < 0 then Inl RuntimeError
      else
        let h = nat (fst size2); w = nat (snd size2) in
        (case crop_loop
                (\<lambda>i. if length src \<le> i then Inl IndexError
                      else crop_sample input i
                             (slice_bounds (dimH input) (y1 src ! i) (y2 src ! i))
                             (slice_bounds (dimW input) (x1 src ! i) (x2 src ! i)) h w)
                [0..<dimB input]
                (torch_empty uninit (dimB input) (dimC input * h * w)) of
           Inl e \<Rightarrow> Inl e
         | Inr out \<Rightarrow>
             Inr \<lparr>dimB = dimB input, dimC = dimC input, dimH = h, dimW = w,
                  data = concat out\<rparr>))"

text \<open>
  \<open>apply_transform\<close>. \<open>transform[:, :2, :]\<close> keeps the first two rows of each matrix and
  fails on \<open>None\<close>.
\<close>

definition apply_transform ::
  "('a tensor4 \<Rightarrow> 'a list list list \<Rightarrow> py_val \<Rightarrow> py_val \<Rightarrow> py_val \<Rightarrow>
      nat \<Rightarrow> nat \<Rightarrow> nat \<Rightarrow> nat \<Rightarrow> 'a) \<Rightarrow>
   (nat \<Rightarrow> 'a) \<Rightarrow> CenterCrop \<Rightarrow> 'a tensor4 \<Rightarrow> params \<Rightarrow> 'a list list list option \<Rightarrow>
   error + 'a tensor4" where
  "apply_transform warp_pixel uninit self input params transform =
     (if flag_cropping_mode (self_flags self) = ''resample'' then
        (case transform of
           None \<Rightarrow> Inl TypeError
         | Some tr \<Rightarrow>
             Inr (crop_by_transform_mat warp_pixel input (map (take 2) tr) (self_size self)
                    (PyStr (str_lower (resample_name (flag_resample (self_flags self)))))
                    (PyStr ''zeros'')
                    (PyBool (flag_align_corners (self_flags self)))))
      else if flag_cropping_mode (self_flags self) = ''slice'' then
        (case params ''src'' of
           None \<Rightarrow> Inl (KeyError ''src'')
         | Some src \<Rightarrow>
             if self_same_on_batch self then slice_shared input src
             else slice_per_sample uninit input src (flag_size (self_flags self)))
      else Inl (NotImplementedError
                  (''Not supported type: '' @ flag_cropping_mode (self_flags self) @ ''.'')))"

text \<open>\<open>inverse_transform\<close>; \<open>kwargs\<close> maps the names of the overrides to their values.\<close>

definition inverse_transform ::
  "('a tensor4 \<Rightarrow> 'a list list list \<Rightarrow> py_val \<Rightarrow> py_val \<Rightarrow> py_val \<Rightarrow>
      nat \<Rightarrow> nat \<Rightarrow> nat \<Rightarrow> nat \<Rightarrow> 'a) \<Rightarrow>
   CenterCrop \<Rightarrow> 'a tensor4 \<Rightarrow> 'a list list list option \<Rightarrow> (int \<times> int) option \<Rightarrow>
   (string \<rightharpoonup> py_val) \<Rightarrow> error + 'a tensor4" where
  "inverse_transform warp_pixel self input transform size1 kwargs =
     (if flag_cropping_mode (self_flags self) \<noteq> ''resample'' then
        Inl (NotImplementedError
               (''`inverse` is only applicable for resample cropping mode. Got '' @
                flag_cropping_mode (self_flags self) @ ''.''))
      else
        let size2 = (case size1 of None \<Rightarrow> self_size self | Some s \<Rightarrow> s);
            mode = (case kwargs ''mode'' of
                      None \<Rightarrow> PyStr (str_lower (resample_name (flag_resample (self_flags self))))
                    | Some v \<Rightarrow> v);
            align_corners = (case kwargs ''align_corners'' of
                               None \<Rightarrow> PyBool (flag_align_corners (self_flags self))
                             | Some v \<Rightarrow> v);
            padding_mode = (case kwargs ''padding_mode'' of
                              None \<Rightarrow> PyStr ''zeros''
                            | Some v \<Rightarrow> v)
        in (case transform of
              None \<Rightarrow> Inl TypeError
            | Some tr \<Rightarrow>
                Inr (crop_by_transform_mat warp_pixel input (map (take 2) tr) size2
                       mode padding_mode align_corners)))"

subsection \<open>The instance and the input of the docstring\<close>

text \<open>
  \<open>aug = CenterCrop(2, p=1., cropping_mode=...)\<close> with the default arguments, as the
  constructor builds it when \<open>Resample.get\<close> gives the member \<open>BILINEAR\<close>, and the tensor
  \<open>inputs\<close> of shape \<open>(1, 1, 4, 4)\<close>.
\<close>

definition aug :: "string \<Rightarrow> CenterCrop" where
  "aug cropping_mode =
     \<lparr>self_p = 1, self_return_transform = False, self_same_on_batch = True, self_p_batch = 1,
      self_keepdim = False, self_size = (2, 2),
      self_flags = \<lparr>flag_resample = Resample ''BILINEAR'', flag_cropping_mode = cropping_mode,
                    flag_align_corners = True, flag_size = (2, 2)\<rparr>\<rparr>"

definition inputs :: "real tensor4" where
  "inputs = \<lparr>dimB = 1, dimC = 1, dimH = 4, dimW = 4,
             data = [- 1.1258, - 1.1524, - 0.2506, - 0.4339,
                     0.8487, 0.6920, - 0.3160, - 2.1152,
                     0.3223, - 1.2633, 0.3500, 0.3081,
                     0.1198, 1.2377, 1.1168, - 0.2473]\<rparr>"

text \<open>
  A stand-in for the interpolation, for the examples that only look at the shape of a
  warped tensor: every cell is 0.
\<close>

definition no_warp ::
  "real tensor4 \<Rightarrow> real list list list \<Rightarrow> py_val \<Rightarrow> py_val \<Rightarrow> py_val \<Rightarrow>
   nat \<Rightarrow> nat \<Rightarrow> nat \<Rightarrow> nat \<Rightarrow> real" where
  "no_warp tensor transform mode padding_mode align_corners b c y x = 0"

text \<open>The output \<open>out\<close> that the docstring prints for \<open>inputs\<close>.\<close>

definition cropped :: "real tensor4" where
  "cropped = \<lparr>dimB = 1, dimC = 1, dimH = 2, dimW = 2,
              data = [0.6920, - 0.3160,
                      - 1.2633, 0.3500]\<rparr>"

text \<open>
  A batch of two samples, and corners that differ between the two samples, as a
  parameter mapping written by hand can hold them.
\<close>

definition inputs2 :: "real tensor4" where
  "inputs2 = \<lparr>dimB = 2, dimC = 1, dimH = 4, dimW = 4,
              data = [0, 1, 2, 3,
                      4, 5, 6, 7,
                      8, 9, 10, 11,
                      12, 13, 14, 15,
                      16, 17, 18, 19,
                      20, 21, 22, 23,
                      24, 25, 26, 27,
                      28, 29, 30, 31]\<rparr>"

definition corners2 :: "box list" where
  "corners2 = [((0, 0), (1, 0), (1, 1), (0, 1)), ((2, 2), (3, 2), (3, 3), (2, 3))]"

text \<open>
  A kernel that gives the cells of \<open>bilinear_zeros\<close> on a grid of \<open>h\<close> rows and \<open>w\<close>
  columns and 1 elsewhere, and a solve that gives the matrix of \<open>translation_scale\<close>
  for the correspondence of the 2 x 2 crop of a 4 x 4 image and no matrix elsewhere.
\<close>

definition other_warp ::
  "nat \<Rightarrow> nat \<Rightarrow> real tensor4 \<Rightarrow> real list list list \<Rightarrow> py_val \<Rightarrow> py_val \<Rightarrow> py_val \<Rightarrow>
   nat \<Rightarrow> nat \<Rightarrow> nat \<Rightarrow> nat \<Rightarrow> real" where
  "other_warp h w tensor transform mode padding_mode align_corners b c y x =
     (if y < h \<and> x < w
      then bilinear_zeros tensor transform mode padding_mode align_corners b c y x
      else 1)"

definition other_solve :: "box \<Rightarrow> box \<Rightarrow> real list list" where
  "other_solve s d =
     (if s = ((1, 1), (2, 1), (2, 2), (1, 2)) \<and> d = ((0, 0), (1, 0), (1, 1), (0, 1))
      then translation_scale s d
      else [])"

section \<open>Properties\<close>

subsection \<open>Auxiliary facts\<close>

lemma wrap64_id: "- (2 ^ 63) \<le> v \<Longrightarrow> v < 2 ^ 63 \<Longrightarrow> wrap64 v = v"
  by (simp add: wrap64_def)

lemma slice_bounds_inside:
  "0 \<le> a \<Longrightarrow> a \<le> b \<Longrightarrow> b \<le> int n \<Longrightarrow> slice_bounds n a b = (nat a, nat b)"
  by (simp add: slice_bounds_def slice_index_def Let_def min_def max_def)

lemma slice_hw_dims [simp]:
  "dimB (slice_hw t ys xs) = dimB t" "dimC (slice_hw t ys xs) = dimC t"
  "dimH (slice_hw t ys xs) = snd ys - fst ys" "dimW (slice_hw t ys xs) = snd xs - fst xs"
  by (simp_all add: slice_hw_def)

lemma crop_by_transform_mat_dims [simp]:
  "dimB (crop_by_transform_mat wp t tr sz m pm ac) = dimB t"
  "dimC (crop_by_transform_mat wp t tr sz m pm ac) = dimC t"
  "dimH (crop_by_transform_mat wp t tr sz m pm ac) = nat (fst sz)"
  "dimW (crop_by_transform_mat wp t tr sz m pm ac) = nat (snd sz)"
  by (simp_all add: crop_by_transform_mat_def)

lemma CenterCrop_init_fields:
  assumes "CenterCrop_init Resample_get size1 align_corners resample return_transform p keepdim
             cropping_mode = Inr self"
  shows "self_same_on_batch self" "self_p self = 1" "self_p_batch self = p"
        "flag_cropping_mode (self_flags self) = cropping_mode"
        "flag_size (self_flags self) = self_size self"
        "flag_align_corners (self_flags self) = align_corners"
        "self_return_transform self = return_transform" "self_keepdim self = keepdim"
  using assms
  by (auto simp: CenterCrop_init_def split: size_arg.splits sum.splits if_splits)

lemma CenterCrop_init_aug:
  "CenterCrop_init (\<lambda>r. Inr (Resample ''BILINEAR'')) (SizeInt 2) True (ResampleStr ''BILINEAR'')
     False 1 False cropping_mode = Inr (aug cropping_mode)"
  by (simp add: CenterCrop_init_def aug_def)

lemma generator_src:
  "center_crop_generator B H W (h, w) ''src'' =
     Some (replicate B (((int W - w) div 2, (int H - h) div 2),
                        ((int W - w) div 2 + w - 1, (int H - h) div 2),
                        ((int W - w) div 2 + w - 1, (int H - h) div 2 + h - 1),
                        ((int W - w) div 2, (int H - h) div 2 + h - 1)))"
  by (simp add: center_crop_generator_def Let_def)

lemma generator_dst:
  "center_crop_generator B H W (h, w) ''dst'' =
     Some (replicate B ((0, 0), (w - 1, 0), (w - 1, h - 1), (0, h - 1)))"
  by (simp add: center_crop_generator_def Let_def)

lemma generate_parameters_shape:
  "generate_parameters self (shape input) =
     Inr (center_crop_generator (dimB input) (dimH input) (dimW input) (self_size self))"
  by (simp add: generate_parameters_def shape_def)

lemma generate_parameters_inputs:
  "generate_parameters (aug m) (shape inputs) = Inr (center_crop_generator 1 4 4 (2, 2))"
  by (simp add: generate_parameters_def shape_def inputs_def aug_def)

text \<open>
  With the corners of the generator, and a crop that fits into the input, the shared
  slice takes the rows \<open>start_y ..< start_y + h\<close> and the columns
  \<open>start_x ..< start_x + w\<close>.
\<close>

lemma slice_shared_generated:
  assumes "0 < B" "0 \<le> h" "h \<le> int (dimH input)" "0 \<le> w" "w \<le> int (dimW input)"
      and "dimH input < 2 ^ 63" "dimW input < 2 ^ 63"
      and "p ''src'' = center_crop_generator B (dimH input) (dimW input) (h, w) ''src''"
  shows "\<exists>src. p ''src'' = Some src \<and> slice_shared input src =
         Inr (slice_hw input
                (nat ((int (dimH input) - h) div 2), nat ((int (dimH input) - h) div 2 + h))
                (nat ((int (dimW input) - w) div 2), nat ((int (dimW input) - w) div 2 + w)))"
proof -
  let ?sy = "(int (dimH input) - h) div 2" and ?sx = "(int (dimW input) - w) div 2"
  have sy: "0 \<le> ?sy" "?sy + h \<le> int (dimH input)" using assms(2,3) by auto
  have sx: "0 \<le> ?sx" "?sx + w \<le> int (dimW input)" using assms(4,5) by auto
  have Hb: "int (dimH input) < 2 ^ 63" and Wb: "int (dimW input) < 2 ^ 63"
    using assms(6,7) by simp_all
  have wy: "wrap64 (?sy + h - 1 + 1) = ?sy + h"
    using sy assms(2) Hb by (intro trans [OF wrap64_id]) auto
  have wx: "wrap64 (?sx + w - 1 + 1) = ?sx + w"
    using sx assms(4) Wb by (intro trans [OF wrap64_id]) auto
  show ?thesis
    using assms(1) sy sx assms(2,4) wx wy
    by (simp add: assms(8) generator_src slice_shared_def x1_def x2_def y1_def y2_def
        slice_bounds_inside)
qed

text \<open>
  The loop overwrites every sample it visits: two buffers that agree on the samples it
  does not visit give the same result.
\<close>

lemma crop_loop_overwrites:
  assumes "length out = length out'"
      and "\<And>j. j < length out \<Longrightarrow> j \<notin> set js \<Longrightarrow> out ! j = out' ! j"
  shows "crop_loop f js out = crop_loop f js out'"
  using assms
proof (induction js arbitrary: out out')
  case Nil
  then show ?case by (simp add: list_eq_iff_nth_eq)
next
  case (Cons i js)
  show ?case
  proof (cases "f i")
    case (Inl e)
    then show ?thesis by simp
  next
    case (Inr blk)
    have "crop_loop f js (out[i := blk]) = crop_loop f js (out'[i := blk])"
    proof (rule Cons.IH)
      show "length (out[i := blk]) = length (out'[i := blk])"
        using Cons.prems(1) by simp
    next
      fix j
      assume "j < length (out[i := blk])" "j \<notin> set js"
      then show "out[i := blk] ! j = out'[i := blk] ! j"
        using Cons.prems by (cases "j = i") simp_all
    qed
    with Inr show ?thesis by simp
  qed
qed

lemma slice_per_sample_uninit:
  "slice_per_sample uninit input src size2 = slice_per_sample uninit' input src size2"
proof -
  have "crop_loop f [0..<B] (torch_empty uninit B n) =
        crop_loop f [0..<B] (torch_empty uninit' B n)"
    for f :: "nat \<Rightarrow> error + 'a list" and B n
    by (rule crop_loop_overwrites) (simp_all add: torch_empty_def)
  then show ?thesis
    by (simp add: slice_per_sample_def Let_def)
qed

text \<open>The two ways of the slice mode on the batch of two samples.\<close>

lemma upt_small:
  "[0..<2] = [0, 1]" "[Suc 0..<3] = [1, 2]" "[2..<4] = [2, 3]" "[0..<Suc 0] = [0]"
  by (simp_all add: upt_rec)

lemma wrap64_small: "wrap64 2 = 2" "wrap64 3 = 3" "wrap64 4 = 4"
  by (simp_all add: wrap64_def)

lemma slice_shared_corners2:
  "slice_shared inputs2 corners2 =
     Inr \<lparr>dimB = 2, dimC = 1, dimH = 2, dimW = 2,
          data = [0, 1,
                  4, 5,
                  16, 17,
                  20, 21]\<rparr>"
  by (simp add: slice_shared_def inputs2_def corners2_def upt_small
      x1_def x2_def y1_def y2_def wrap64_small slice_bounds_inside slice_hw_def at4_def)

lemma slice_per_sample_corners2:
  "slice_per_sample uninit inputs2 corners2 (2, 2) =
     Inr \<lparr>dimB = 2, dimC = 1, dimH = 2, dimW = 2,
          data = [0, 1,
                  4, 5,
                  26, 27,
                  30, 31]\<rparr>"
  by (simp add: slice_per_sample_def inputs2_def corners2_def upt_small crop_sample_def
      x1_def x2_def y1_def y2_def wrap64_small slice_bounds_inside torch_empty_def at4_def Let_def)

text \<open>
  The result of \<open>apply_transform\<close> does not depend on what the memory of
  \<open>torch.empty\<close> holds, for any instance.
\<close>

lemma apply_transform_uninit:
  "apply_transform warp_pixel uninit self input params transform =
   apply_transform warp_pixel uninit' self input params transform"
proof -
  have "slice_per_sample uninit input src size2 = slice_per_sample uninit' input src size2"
    for src size2
    by (rule slice_per_sample_uninit)
  then show ?thesis
    by (simp add: apply_transform_def cong: if_cong option.case_cong)
qed

text \<open>The cells of the exact bilinear kernel under a translation by whole pixels.\<close>

lemma bilinear_zeros_translation:
  "bilinear_zeros t [[[1, 0, - real tx], [0, 1, - real ty]]] m pm ac 0 c y x =
     pixel_or_zero t 0 c (int y + int ty) (int x + int tx)"
proof -
  have "\<lfloor>real x + real tx\<rfloor> = int x + int tx" "\<lfloor>real y + real ty\<rfloor> = int y + int ty"
    by (simp_all flip: of_nat_add)
  then show ?thesis
    by (simp add: bilinear_zeros_def Let_def)
qed

lemma bilinear_zeros_inputs:
  assumes "y < 2" "x < 2"
  shows "bilinear_zeros inputs [[[1, 0, - 1], [0, 1, - 1]]] m pm ac 0 0 y x =
         at4 inputs 0 0 (y + 1) (x + 1)"
proof -
  have "bilinear_zeros inputs [[[1, 0, - real 1], [0, 1, - real 1]]] m pm ac 0 0 y x =
        pixel_or_zero inputs 0 0 (int y + int 1) (int x + int 1)"
    by (rule bilinear_zeros_translation)
  moreover have "pixel_or_zero inputs 0 0 (int y + int 1) (int x + int 1) =
        at4 inputs 0 0 (y + 1) (x + 1)"
    using assms by (simp add: pixel_or_zero_def inputs_def nat_add_distrib)
  ultimately show ?thesis by simp
qed

lemma is_3x3_translation_scale: "is_3x3 (translation_scale s d)"
  by (simp add: is_3x3_def translation_scale_def Let_def)

text \<open>
  The warp and the transform builder use the kernel and the solve only at the cells of
  the output grid and at the rows of the parameters.
\<close>

lemma crop_by_transform_mat_cong:
  assumes "\<And>b c y x. b < dimB t \<Longrightarrow> c < dimC t \<Longrightarrow> y < nat (fst sz) \<Longrightarrow> x < nat (snd sz) \<Longrightarrow>
             wp t M m pm ac b c y x = wp' t M m pm ac b c y x"
  shows "crop_by_transform_mat wp t M sz m pm ac = crop_by_transform_mat wp' t M sz m pm ac"
  unfolding crop_by_transform_mat_def
  by (auto simp: assms intro!: arg_cong [where f = concat] map_cong)

lemma get_perspective_transform_cong:
  assumes "\<And>s d. (s, d) \<in> set (zip src dst) \<Longrightarrow> solve s d = solve' s d"
  shows "get_perspective_transform solve src dst = get_perspective_transform solve' src dst"
  using assms by (auto simp: get_perspective_transform_def)

subsection \<open>The example of the docstring\<close>

text \<open>
  C1. For an input of shape \<open>(1, 1, 4, 4)\<close> and a CenterCrop constructed with crop size
  2, in either mode, the operator (\<open>generate_parameters\<close>, \<open>compute_transformation\<close>,
  \<open>apply_transform\<close>) returns the tensor of shape \<open>(1, 1, 2, 2)\<close> holding rows 1-2 and
  columns 1-2 of the input. In slice mode the elements are copied, for every element
  type and whatever the collaborators do. In resample mode the elements are those the
  interpolation gives for the first two rows of the solved transform, the mode of the
  instance, the padding "zeros" and the alignment of the instance; they are the centre
  block when the solve gives the translation by one pixel and the interpolation is
  exact under it.
\<close>

theorem center_crop_4x4:
  fixes a00 :: "'a::ring_1"
  assumes "CenterCrop_init Resample_get (SizeInt 2) align_corners resample return_transform p
             keepdim cropping_mode = Inr self"
      and "cropping_mode = ''slice'' \<or> cropping_mode = ''resample''"
      and "input = \<lparr>dimB = 1, dimC = 1, dimH = 4, dimW = 4,
                     data = [a00, a01, a02, a03,
                             a10, a11, a12, a13,
                             a20, a21, a22, a23,
                             a30, a31, a32, a33]\<rparr>"
      and "cropping_mode = ''resample'' \<longrightarrow>
             solve ((1, 1), (2, 1), (2, 2), (1, 2)) ((0, 0), (1, 0), (1, 1), (0, 1)) =
               [[1, 0, - 1], [0, 1, - 1], [0, 0, 1]]"
      and "cropping_mode = ''resample'' \<longrightarrow>
             (\<forall>y<2. \<forall>x<2.
                warp_pixel input [[[1, 0, - 1], [0, 1, - 1]]]
                  (PyStr (str_lower (resample_name (flag_resample (self_flags self)))))
                  (PyStr ''zeros'') (PyBool align_corners) 0 0 y x =
                at4 input 0 0 (y + 1) (x + 1))"
  shows "generate_parameters self (shape input) = Inr (center_crop_generator 1 4 4 (2, 2)) \<and>
         compute_transformation solve input (center_crop_generator 1 4 4 (2, 2)) =
           Inr [solve ((1, 1), (2, 1), (2, 2), (1, 2)) ((0, 0), (1, 0), (1, 1), (0, 1))] \<and>
         apply_transform warp_pixel uninit self input (center_crop_generator 1 4 4 (2, 2))
           (Some [solve ((1, 1), (2, 1), (2, 2), (1, 2)) ((0, 0), (1, 0), (1, 1), (0, 1))]) =
           Inr \<lparr>dimB = 1, dimC = 1, dimH = 2, dimW = 2,
                data = [a11, a12,
                        a21, a22]\<rparr>"
proof (intro conjI)
  have sz: "self_size self = (2, 2)"
    using assms(1) by (auto simp: CenterCrop_init_def split: sum.splits)
  show "generate_parameters self (shape input) = Inr (center_crop_generator 1 4 4 (2, 2))"
    by (simp add: generate_parameters_def shape_def assms(3) sz)
  show "compute_transformation solve input (center_crop_generator 1 4 4 (2, 2)) =
          Inr [solve ((1, 1), (2, 1), (2, 2), (1, 2)) ((0, 0), (1, 0), (1, 1), (0, 1))]"
    by (simp add: compute_transformation_def generator_src generator_dst
        get_perspective_transform_def expand_batch_def assms(3))
  show "apply_transform warp_pixel uninit self input (center_crop_generator 1 4 4 (2, 2))
           (Some [solve ((1, 1), (2, 1), (2, 2), (1, 2)) ((0, 0), (1, 0), (1, 1), (0, 1))]) =
           Inr \<lparr>dimB = 1, dimC = 1, dimH = 2, dimW = 2, data = [a11, a12, a21, a22]\<rparr>"
    using assms(2)
  proof
    assume m: "cropping_mode = ''slice''"
    have w: "wrap64 3 = 3" by (simp add: wrap64_def)
    have b: "slice_bounds 4 1 3 = (1, 3)" by (simp add: slice_bounds_inside)
    have u: "[Suc 0..<3] = [1, 2]" by (simp add: upt_rec)
    show ?thesis
      using CenterCrop_init_fields(1,4) [OF assms(1)]
      by (simp add: apply_transform_def m generator_src
          slice_shared_def x1_def x2_def y1_def y2_def w b slice_hw_def u at4_def assms(3))
  next
    assume m: "cropping_mode = ''resample''"
    have s: "solve ((1, 1), (2, 1), (2, 2), (1, 2)) ((0, 0), (1, 0), (1, 1), (0, 1)) =
               [[1, 0, - 1], [0, 1, - 1], [0, 0, 1]]"
      using assms(4) m by simp
    have k: "warp_pixel input [[[1, 0, - 1], [0, 1, - 1]]]
                  (PyStr (str_lower (resample_name (flag_resample (self_flags self)))))
                  (PyStr ''zeros'') (PyBool align_corners) 0 0 y x =
                at4 input 0 0 (y + 1) (x + 1)" if "y < 2" "x < 2" for y x
      using assms(5) m that by simp
    have u: "[0..<2] = [0, 1]" "[0..<Suc 0] = [0]" by (simp_all add: upt_rec)
    have d: "dimB input = 1" "dimC input = 1" by (simp_all add: assms(3))
    have c: "at4 input 0 0 1 1 = a11" "at4 input 0 0 1 2 = a12"
      "at4 input 0 0 2 1 = a21" "at4 input 0 0 2 2 = a22"
      by (simp_all add: at4_def assms(3))
    have k4: "warp_pixel input [[[1, 0, - 1], [0, 1, - 1]]]
                  (PyStr (str_lower (resample_name (flag_resample (self_flags self)))))
                  (PyStr ''zeros'') (PyBool align_corners) 0 0 0 0 = a11"
      "warp_pixel input [[[1, 0, - 1], [0, 1, - 1]]]
                  (PyStr (str_lower (resample_name (flag_resample (self_flags self)))))
                  (PyStr ''zeros'') (PyBool align_corners) 0 0 0 (Suc 0) = a12"
      "warp_pixel input [[[1, 0, - 1], [0, 1, - 1]]]
                  (PyStr (str_lower (resample_name (flag_resample (self_flags self)))))
                  (PyStr ''zeros'') (PyBool align_corners) 0 0 (Suc 0) 0 = a21"
      "warp_pixel input [[[1, 0, - 1], [0, 1, - 1]]]
                  (PyStr (str_lower (resample_name (flag_resample (self_flags self)))))
                  (PyStr ''zeros'') (PyBool align_corners) 0 0 (Suc 0) (Suc 0) = a22"
      using k [of 0 0] k [of 0 "Suc 0"] k [of "Suc 0" 0] k [of "Suc 0" "Suc 0"] c
      by (simp_all add: numeral_2_eq_2)
    show ?thesis
      using CenterCrop_init_fields(4,6) [OF assms(1)]
      by (simp add: apply_transform_def m s sz crop_by_transform_mat_def u d k4)
  qed
qed

text \<open>
  The example of the docstring, \<open>CenterCrop(2, p=1., cropping_mode="resample")\<close> on
  \<open>inputs\<close>, with the exact solve and the exact bilinear kernel, and the same in slice
  mode: both give the output the docstring prints.
\<close>

theorem center_crop_4x4_witness:
  "compute_transformation translation_scale inputs (center_crop_generator 1 4 4 (2, 2)) =
     Inr [[[1, 0, - 1], [0, 1, - 1], [0, 0, 1]]] \<and>
   apply_transform bilinear_zeros (\<lambda>k. 0) (aug ''resample'') inputs
     (center_crop_generator 1 4 4 (2, 2)) (Some [[[1, 0, - 1], [0, 1, - 1], [0, 0, 1]]]) =
     Inr \<lparr>dimB = 1, dimC = 1, dimH = 2, dimW = 2,
          data = [0.6920, - 0.3160,
                  - 1.2633, 0.3500]\<rparr> \<and>
   apply_transform bilinear_zeros (\<lambda>k. 0) (aug ''slice'') inputs
     (center_crop_generator 1 4 4 (2, 2)) (Some [[[1, 0, - 1], [0, 1, - 1], [0, 0, 1]]]) =
     Inr \<lparr>dimB = 1, dimC = 1, dimH = 2, dimW = 2,
          data = [0.6920, - 0.3160,
                  - 1.2633, 0.3500]\<rparr>"
proof -
  have t: "translation_scale ((1, 1), (2, 1), (2, 2), (1, 2)) ((0, 0), (1, 0), (1, 1), (0, 1)) =
           [[1, 0, - 1], [0, 1, - 1], [0, 0, 1]]"
    by (simp add: translation_scale_def)
  have k: "\<forall>y<2. \<forall>x<2.
             bilinear_zeros inputs [[[1, 0, - 1], [0, 1, - 1]]]
               (PyStr (str_lower (resample_name (flag_resample (self_flags (aug m))))))
               (PyStr ''zeros'') (PyBool True) 0 0 y x =
             at4 inputs 0 0 (y + 1) (x + 1)" for m
    by (simp add: bilinear_zeros_inputs)
  note inst = center_crop_4x4 [OF CenterCrop_init_aug _ inputs_def,
      where solve = translation_scale and warp_pixel = bilinear_zeros and uninit = "\<lambda>k. 0"]
  show ?thesis
    using inst [of "''resample''"] inst [of "''slice''"] t k
    by simp
qed

subsection \<open>The size of the output\<close>

text \<open>
  C2, as amended. For a constructed CenterCrop of crop size \<open>(h, w)\<close>, an input of
  spatial size \<open>(H, W)\<close> with \<open>h \<le> H\<close> and \<open>w \<le> W\<close>, and the parameters that
  \<open>generate_parameters\<close> gives for this input, the output of \<open>apply_transform\<close> has
  spatial size exactly \<open>(h, w)\<close>: in resample mode for every batch, in slice mode for
  every batch of at least one sample.
\<close>

theorem apply_transform_output_size:
  assumes "CenterCrop_init Resample_get size1 align_corners resample return_transform p keepdim
             cropping_mode = Inr self"
      and "self_size self = (h, w)"
      and "valid_tensor input"
      and "0 \<le> h" "h \<le> int (dimH input)" "0 \<le> w" "w \<le> int (dimW input)"
      and "generate_parameters self (shape input) = Inr params"
  shows "(cropping_mode = ''slice'' \<and> 0 < dimB input \<longrightarrow>
            (\<exists>out. apply_transform warp_pixel uninit self input params transform = Inr out \<and>
                   int (dimH out) = h \<and> int (dimW out) = w \<and>
                   dimB out = dimB input \<and> dimC out = dimC input)) \<and>
         (cropping_mode = ''resample'' \<longrightarrow>
            (\<exists>out. apply_transform warp_pixel uninit self input params (Some tr) = Inr out \<and>
                   int (dimH out) = h \<and> int (dimW out) = w \<and>
                   dimB out = dimB input \<and> dimC out = dimC input))"
proof (intro conjI impI)
  assume "cropping_mode = ''slice'' \<and> 0 < dimB input"
  then have mode: "flag_cropping_mode (self_flags self) = ''slice''" and B: "0 < dimB input"
    using CenterCrop_init_fields(4) [OF assms(1)] by simp_all
  have same: "self_same_on_batch self"
    by (rule CenterCrop_init_fields(1) [OF assms(1)])
  have params: "params = center_crop_generator (dimB input) (dimH input) (dimW input) (h, w)"
    using assms(8) by (simp add: generate_parameters_shape assms(2))
  have bounds: "dimH input < 2 ^ 63" "dimW input < 2 ^ 63"
    using assms(3) by (simp_all add: valid_tensor_def)
  obtain src where src: "params ''src'' = Some src"
    and shared: "slice_shared input src =
         Inr (slice_hw input
                (nat ((int (dimH input) - h) div 2), nat ((int (dimH input) - h) div 2 + h))
                (nat ((int (dimW input) - w) div 2), nat ((int (dimW input) - w) div 2 + w)))"
    using slice_shared_generated [OF B assms(4-7) bounds, of params] params by auto
  have "0 \<le> (int (dimH input) - h) div 2" "0 \<le> (int (dimW input) - w) div 2"
    using assms(5,7) by auto
  then show "\<exists>out. apply_transform warp_pixel uninit self input params transform = Inr out \<and>
                   int (dimH out) = h \<and> int (dimW out) = w \<and>
                   dimB out = dimB input \<and> dimC out = dimC input"
    using assms(4,6) by (simp add: apply_transform_def mode same src shared nat_diff_distrib)
next
  assume "cropping_mode = ''resample''"
  then have mode: "flag_cropping_mode (self_flags self) = ''resample''"
    using CenterCrop_init_fields(4) [OF assms(1)] by simp
  show "\<exists>out. apply_transform warp_pixel uninit self input params (Some tr) = Inr out \<and>
                   int (dimH out) = h \<and> int (dimW out) = w \<and>
                   dimB out = dimB input \<and> dimC out = dimC input"
    using assms(4,6) by (simp add: apply_transform_def mode assms(2))
qed

theorem apply_transform_output_size_witness:
  "(\<exists>out. apply_transform no_warp (\<lambda>k. 0) (aug ''slice'') inputs
            (center_crop_generator 1 4 4 (2, 2)) None = Inr out \<and>
          int (dimH out) = 2 \<and> int (dimW out) = 2 \<and> dimB out = 1 \<and> dimC out = 1) \<and>
   (\<exists>out. apply_transform no_warp (\<lambda>k. 0) (aug ''resample'') inputs
            (center_crop_generator 1 4 4 (2, 2))
            (Some [[[1, 0, - 1], [0, 1, - 1], [0, 0, 1]]]) = Inr out \<and>
          int (dimH out) = 2 \<and> int (dimW out) = 2 \<and> dimB out = 1 \<and> dimC out = 1)"
proof -
  have sz: "self_size (aug m) = (2, 2)" for m by (simp add: aug_def)
  have v: "valid_tensor inputs" by (simp add: valid_tensor_def inputs_def)
  have d: "dimB inputs = 1" "dimC inputs = 1" "dimH inputs = 4" "dimW inputs = 4"
    by (simp_all add: inputs_def)
  have b: "(0::int) \<le> 2" "2 \<le> int (dimH inputs)" "2 \<le> int (dimW inputs)"
    by (simp_all add: d)
  note inst = apply_transform_output_size [OF CenterCrop_init_aug sz v b(1,2) b(1,3)
      generate_parameters_inputs, where warp_pixel = no_warp and uninit = "\<lambda>k. 0"]
  show ?thesis
    using inst [where cropping_mode = "''slice''" and transform = None]
      inst [where cropping_mode = "''resample''"
              and tr = "[[[1, 0, - 1], [0, 1, - 1], [0, 0, 1]]]"]
    by (simp add: d)
qed

text \<open>
  The claim as stated, for every input, fails in slice mode on an empty batch: the
  generator gives no row of corners, and the shared slice reads the row 0.
\<close>

theorem apply_transform_empty_batch:
  "CenterCrop_init (\<lambda>r. Inr (Resample ''BILINEAR'')) (SizeInt 2) True (ResampleStr ''BILINEAR'')
     False 1 False ''slice'' = Inr (aug ''slice'') \<and>
   generate_parameters (aug ''slice'')
     (shape \<lparr>dimB = 0, dimC = 1, dimH = 4, dimW = 4, data = [] :: real list\<rparr>) =
     Inr (center_crop_generator 0 4 4 (2, 2)) \<and>
   apply_transform no_warp (\<lambda>k. 0) (aug ''slice'')
     \<lparr>dimB = 0, dimC = 1, dimH = 4, dimW = 4, data = []\<rparr>
     (center_crop_generator 0 4 4 (2, 2)) None = Inl IndexError"
  by (simp add: CenterCrop_init_aug generate_parameters_def shape_def aug_def apply_transform_def
      generator_src slice_shared_def)

subsection \<open>Errors\<close>

text \<open>
  C3. When the cropping mode of a CenterCrop is not "resample", \<open>inverse_transform\<close>
  raises NotImplementedError, with a message that names the mode resample and the mode
  at hand, whatever the input, the transform, the size and the overrides.
\<close>

theorem inverse_transform_not_resample:
  assumes "flag_cropping_mode (self_flags self) \<noteq> ''resample''"
  shows "inverse_transform warp_pixel self input transform size1 kwargs =
         Inl (NotImplementedError
                (''`inverse` is only applicable for resample cropping mode. Got '' @
                 flag_cropping_mode (self_flags self) @ ''.''))"
  using assms by (simp add: inverse_transform_def)

theorem inverse_transform_not_resample_witness:
  "inverse_transform no_warp (aug ''slice'')
     \<lparr>dimB = 1, dimC = 1, dimH = 2, dimW = 2, data = [0.6920, - 0.3160, - 1.2633, 0.3500]\<rparr>
     (Some [[[1, 0, 1], [0, 1, 1], [0, 0, 1]]]) (Some (4, 4))
     [''padding_mode'' \<mapsto> PyStr ''border''] =
   Inl (NotImplementedError
          ''`inverse` is only applicable for resample cropping mode. Got slice.'')"
  using inverse_transform_not_resample [of "aug ''slice''"]
  by (simp add: aug_def)

text \<open>
  C7. For every cropping mode other than "slice" and "resample", \<open>apply_transform\<close>
  raises NotImplementedError with the message "Not supported type: ", the mode and a
  full stop, for every input, parameter mapping and transform.
\<close>

theorem apply_transform_unsupported_mode:
  assumes "flag_cropping_mode (self_flags self) \<noteq> ''slice''"
      and "flag_cropping_mode (self_flags self) \<noteq> ''resample''"
  shows "apply_transform warp_pixel uninit self input params transform =
         Inl (NotImplementedError
                (''Not supported type: '' @ flag_cropping_mode (self_flags self) @ ''.''))"
  using assms by (simp add: apply_transform_def)

theorem apply_transform_unsupported_mode_witness:
  "apply_transform no_warp (\<lambda>k. 0) (aug ''nearest'') inputs
     (center_crop_generator 1 4 4 (2, 2)) None =
   Inl (NotImplementedError ''Not supported type: nearest.'')"
  using apply_transform_unsupported_mode [of "aug ''nearest''"]
  by (simp add: aug_def)

text \<open>
  C8. The constructor raises at once, with a message that ends in the text of
  \<open>type(size)\<close>, when \<open>size\<close> is neither an int nor a tuple. When \<open>Resample.get\<close>
  accepts the argument \<open>resample\<close>, the constructor returns an instance that stores
  \<open>(s, s)\<close> for an int \<open>s\<close>, and \<open>(size[0], size[1])\<close> for a tuple that has these two
  entries.
\<close>

theorem CenterCrop_init_size:
  "CenterCrop_init Resample_get (SizeOther ty) align_corners resample return_transform p keepdim
     cropping_mode =
     Inl (PyException (''Invalid size type. Expected (int, tuple(int, int). Got: '' @ ty @ ''.'')) \<and>
   (Resample_get resample = Inr r \<longrightarrow>
      (\<exists>self. CenterCrop_init Resample_get (SizeInt s) align_corners resample return_transform p
                keepdim cropping_mode = Inr self \<and>
              self_size self = (s, s) \<and> flag_size (self_flags self) = (s, s))) \<and>
   (Resample_get resample = Inr r \<and> 2 \<le> length t \<longrightarrow>
      (\<exists>self. CenterCrop_init Resample_get (SizeTuple t) align_corners resample return_transform p
                keepdim cropping_mode = Inr self \<and>
              self_size self = (t ! 0, t ! 1) \<and> flag_size (self_flags self) = (t ! 0, t ! 1)))"
  by (simp add: CenterCrop_init_def)

theorem CenterCrop_init_size_witness:
  "CenterCrop_init (\<lambda>r. Inr (Resample ''BILINEAR'')) (SizeOther ''<class 'float'>'') True
     (ResampleStr ''BILINEAR'') False 1 False ''slice'' =
     Inl (PyException
            ''Invalid size type. Expected (int, tuple(int, int). Got: <class 'float'>.'') \<and>
   (\<exists>self. CenterCrop_init (\<lambda>r. Inr (Resample ''BILINEAR'')) (SizeInt 2) True
             (ResampleStr ''BILINEAR'') False 1 False ''slice'' = Inr self \<and>
           self_size self = (2, 2) \<and> flag_size (self_flags self) = (2, 2)) \<and>
   (\<exists>self. CenterCrop_init (\<lambda>r. Inr (Resample ''BILINEAR'')) (SizeTuple [2, 3]) True
             (ResampleStr ''BILINEAR'') False 1 False ''slice'' = Inr self \<and>
           self_size self = (2, 3) \<and> flag_size (self_flags self) = (2, 3))"
  using CenterCrop_init_size [where Resample_get = "\<lambda>r. Inr (Resample ''BILINEAR'')"
      and resample = "ResampleStr ''BILINEAR''" and r = "Resample ''BILINEAR''"
      and ty = "''<class 'float'>''" and s = 2 and t = "[2, 3]" and align_corners = True
      and return_transform = False and p = 1 and keepdim = False and cropping_mode = "''slice''"]
  by simp

subsection \<open>The inverse\<close>

text \<open>
  C4, as amended. In resample mode, with a transform at hand, \<open>inverse_transform\<close>
  returns a tensor of the requested spatial size when a size is given, and of the crop
  size \<open>self.size\<close> of the instance when the size is omitted (sizes not negative).
\<close>

theorem inverse_transform_output_size:
  assumes "flag_cropping_mode (self_flags self) = ''resample''"
      and "(case size1 of None \<Rightarrow> self_size self | Some s \<Rightarrow> s) = (h, w)"
      and "0 \<le> h" "0 \<le> w"
  shows "\<exists>out. inverse_transform warp_pixel self input (Some tr) size1 kwargs = Inr out \<and>
               int (dimH out) = h \<and> int (dimW out) = w \<and>
               dimB out = dimB input \<and> dimC out = dimC input"
  using assms by (simp add: inverse_transform_def Let_def)

theorem inverse_transform_output_size_witness:
  "(\<exists>r. inverse_transform no_warp (aug ''resample'') cropped
           (Some [[[1, 0, 1], [0, 1, 1], [0, 0, 1]]]) (Some (4, 4))
           [''padding_mode'' \<mapsto> PyStr ''border''] = Inr r \<and>
         int (dimH r) = 4 \<and> int (dimW r) = 4 \<and> dimB r = 1 \<and> dimC r = 1) \<and>
   (\<exists>r. inverse_transform no_warp (aug ''resample'') cropped
           (Some [[[1, 0, 1], [0, 1, 1], [0, 0, 1]]]) None
           [''padding_mode'' \<mapsto> PyStr ''border''] = Inr r \<and>
         int (dimH r) = 2 \<and> int (dimW r) = 2 \<and> dimB r = 1 \<and> dimC r = 1)"
proof -
  have m: "flag_cropping_mode (self_flags (aug ''resample'')) = ''resample''"
    by (simp add: aug_def)
  have a: "(case Some (4, 4) of None \<Rightarrow> self_size (aug ''resample'') | Some s \<Rightarrow> s) = (4, 4)"
    by simp
  have b: "(case None of None \<Rightarrow> self_size (aug ''resample'') | Some s \<Rightarrow> s) = (2, 2)"
    by (simp add: aug_def)
  have d: "dimB cropped = 1" "dimC cropped = 1" by (simp_all add: cropped_def)
  show ?thesis
    using inverse_transform_output_size [OF m a, where warp_pixel = no_warp and input = cropped
        and tr = "[[[1, 0, 1], [0, 1, 1], [0, 0, 1]]]"
        and kwargs = "[''padding_mode'' \<mapsto> PyStr ''border'']"]
      inverse_transform_output_size [OF m b, where warp_pixel = no_warp and input = cropped
        and tr = "[[[1, 0, 1], [0, 1, 1], [0, 0, 1]]]"
        and kwargs = "[''padding_mode'' \<mapsto> PyStr ''border'']"]
    by (simp add: d)
qed

text \<open>
  The claim as stated fails when the size is omitted: the crop of the 4 x 4 tensor
  \<open>inputs\<close> is 2 x 2, and its inverse without a size is 2 x 2 again, not 4 x 4. (The
  cells are those of the stand-in for the interpolation.)
\<close>

theorem inverse_transform_default_size:
  "dimH inputs = 4 \<and> dimW inputs = 4 \<and>
   apply_transform no_warp (\<lambda>k. 0) (aug ''resample'') inputs (center_crop_generator 1 4 4 (2, 2))
     (Some [[[1, 0, - 1], [0, 1, - 1], [0, 0, 1]]]) =
     Inr \<lparr>dimB = 1, dimC = 1, dimH = 2, dimW = 2, data = [0, 0, 0, 0]\<rparr> \<and>
   inverse_transform no_warp (aug ''resample'')
     \<lparr>dimB = 1, dimC = 1, dimH = 2, dimW = 2, data = [0, 0, 0, 0]\<rparr>
     (Some [[[1, 0, 1], [0, 1, 1], [0, 0, 1]]]) None Map.empty =
     Inr \<lparr>dimB = 1, dimC = 1, dimH = 2, dimW = 2, data = [0, 0, 0, 0]\<rparr>"
  by (simp add: inputs_def apply_transform_def inverse_transform_def aug_def
      crop_by_transform_mat_def no_warp_def upt_small)

subsection \<open>The two ways of the slice mode\<close>

text \<open>
  C5, as amended. In slice mode \<open>apply_transform\<close> chooses by the flag
  \<open>same_on_batch\<close> of the instance, not by the corners: with the flag set it takes one
  shared slice of the whole batch at the corners of the first sample, whether or not
  the other samples have the same corners; with the flag clear it runs the loop over
  the samples, each with its own corners.
\<close>

theorem apply_transform_slice_paths:
  assumes "flag_cropping_mode (self_flags self) = ''slice''"
      and "params ''src'' = Some src"
  shows "apply_transform warp_pixel uninit self input params transform =
           (if self_same_on_batch self
            then (if src = [] then Inl IndexError
                  else Inr (slice_hw input
                              (slice_bounds (dimH input) (snd (corner 0 (hd src)))
                                 (wrap64 (snd (corner 3 (hd src)) + 1)))
                              (slice_bounds (dimW input) (fst (corner 0 (hd src)))
                                 (wrap64 (fst (corner 1 (hd src)) + 1)))))
            else slice_per_sample uninit input src (flag_size (self_flags self)))"
  using assms
  by (cases src) (simp_all add: apply_transform_def slice_shared_def x1_def x2_def y1_def y2_def)

theorem apply_transform_slice_paths_witness:
  "apply_transform no_warp (\<lambda>k. 0) (aug ''slice'') inputs2 [''src'' \<mapsto> corners2] None =
     Inr \<lparr>dimB = 2, dimC = 1, dimH = 2, dimW = 2, data = [0, 1, 4, 5, 16, 17, 20, 21]\<rparr> \<and>
   apply_transform no_warp (\<lambda>k. 0) ((aug ''slice'')\<lparr>self_same_on_batch := False\<rparr>) inputs2
     [''src'' \<mapsto> corners2] None =
     Inr \<lparr>dimB = 2, dimC = 1, dimH = 2, dimW = 2, data = [0, 1, 4, 5, 26, 27, 30, 31]\<rparr>"
proof -
  have m: "flag_cropping_mode (self_flags (aug ''slice'')) = ''slice''"
    "flag_cropping_mode (self_flags ((aug ''slice'')\<lparr>self_same_on_batch := False\<rparr>)) = ''slice''"
    by (simp_all add: aug_def)
  have s: "[''src'' \<mapsto> corners2] ''src'' = Some corners2" by simp
  have "apply_transform no_warp (\<lambda>k. 0) (aug ''slice'') inputs2 [''src'' \<mapsto> corners2] None =
     Inr \<lparr>dimB = 2, dimC = 1, dimH = 2, dimW = 2, data = [0, 1, 4, 5, 16, 17, 20, 21]\<rparr>"
    using apply_transform_slice_paths [where params = "[''src'' \<mapsto> corners2]" and src = corners2
        and warp_pixel = no_warp and uninit = "\<lambda>k. 0" and input = inputs2 and transform = None,
        OF m(1) s]
    by (simp add: aug_def corners2_def inputs2_def upt_small wrap64_small
        slice_bounds_inside slice_hw_def at4_def)
  moreover have "apply_transform no_warp (\<lambda>k. 0) ((aug ''slice'')\<lparr>self_same_on_batch := False\<rparr>)
     inputs2 [''src'' \<mapsto> corners2] None =
     Inr \<lparr>dimB = 2, dimC = 1, dimH = 2, dimW = 2, data = [0, 1, 4, 5, 26, 27, 30, 31]\<rparr>"
    using apply_transform_slice_paths [where params = "[''src'' \<mapsto> corners2]" and src = corners2
        and warp_pixel = no_warp and uninit = "\<lambda>k. 0" and input = inputs2 and transform = None,
        OF m(2) s]
    by (simp add: aug_def slice_per_sample_corners2)
  ultimately show ?thesis by simp
qed

text \<open>
  The claim as stated fails on corners that are not uniform: the constructed instance
  does not fall back to the loop, it crops both samples at the corners of the first.
\<close>

theorem apply_transform_not_uniform:
  "corners2 ! 0 \<noteq> corners2 ! 1 \<and>
   apply_transform no_warp (\<lambda>k. 0) (aug ''slice'') inputs2 [''src'' \<mapsto> corners2] None =
     Inr \<lparr>dimB = 2, dimC = 1, dimH = 2, dimW = 2, data = [0, 1, 4, 5, 16, 17, 20, 21]\<rparr> \<and>
   slice_per_sample (\<lambda>k. 0) inputs2 corners2 (flag_size (self_flags (aug ''slice''))) =
     Inr \<lparr>dimB = 2, dimC = 1, dimH = 2, dimW = 2, data = [0, 1, 4, 5, 26, 27, 30, 31]\<rparr> \<and>
   apply_transform no_warp (\<lambda>k. 0) (aug ''slice'') inputs2 [''src'' \<mapsto> corners2] None \<noteq>
   slice_per_sample (\<lambda>k. 0) inputs2 corners2 (flag_size (self_flags (aug ''slice'')))"
proof -
  have f: "flag_size (self_flags (aug ''slice'')) = (2, 2)" by (simp add: aug_def)
  have a: "apply_transform no_warp (\<lambda>k. 0) (aug ''slice'') inputs2 [''src'' \<mapsto> corners2] None =
           slice_shared inputs2 corners2"
    by (simp add: apply_transform_def aug_def)
  show ?thesis
    by (simp add: a slice_shared_corners2 slice_per_sample_corners2 f) (simp add: corners2_def)
qed

text \<open>
  C10. Every instance the constructor returns, whatever its arguments, has
  \<open>same_on_batch\<close> set and the probability \<open>p\<close> 1 for an element, the argument \<open>p\<close>
  being kept as \<open>p_batch\<close> only; so in slice mode \<open>apply_transform\<close> is the shared
  slice, and the loop over the samples does not run.
\<close>

theorem CenterCrop_same_on_batch:
  assumes "CenterCrop_init Resample_get size1 align_corners resample return_transform p keepdim
             cropping_mode = Inr self"
  shows "self_same_on_batch self \<and> self_p self = 1 \<and> self_p_batch self = p \<and>
         (cropping_mode = ''slice'' \<longrightarrow>
            apply_transform warp_pixel uninit self input params transform =
              (case params ''src'' of
                 None \<Rightarrow> Inl (KeyError ''src'')
               | Some src \<Rightarrow> slice_shared input src))"
  using CenterCrop_init_fields [OF assms]
  by (simp add: apply_transform_def split: option.splits)

theorem CenterCrop_same_on_batch_witness:
  "CenterCrop_init (\<lambda>r. Inr (Resample ''NEAREST'')) (SizeTuple [2, 2]) False
     (ResampleStr ''nearest'') True 0.25 True ''slice'' =
     Inr \<lparr>self_p = 1, self_return_transform = True, self_same_on_batch = True,
          self_p_batch = 0.25, self_keepdim = True, self_size = (2, 2),
          self_flags = \<lparr>flag_resample = Resample ''NEAREST'', flag_cropping_mode = ''slice'',
                        flag_align_corners = False, flag_size = (2, 2)\<rparr>\<rparr> \<and>
   apply_transform no_warp (\<lambda>k. 0)
     \<lparr>self_p = 1, self_return_transform = True, self_same_on_batch = True,
      self_p_batch = 0.25, self_keepdim = True, self_size = (2, 2),
      self_flags = \<lparr>flag_resample = Resample ''NEAREST'', flag_cropping_mode = ''slice'',
                    flag_align_corners = False, flag_size = (2, 2)\<rparr>\<rparr>
     inputs2 [''src'' \<mapsto> corners2] None =
     Inr \<lparr>dimB = 2, dimC = 1, dimH = 2, dimW = 2, data = [0, 1, 4, 5, 16, 17, 20, 21]\<rparr>"
proof -
  have i: "CenterCrop_init (\<lambda>r. Inr (Resample ''NEAREST'')) (SizeTuple [2, 2]) False
     (ResampleStr ''nearest'') True 0.25 True ''slice'' =
     Inr \<lparr>self_p = 1, self_return_transform = True, self_same_on_batch = True,
          self_p_batch = 0.25, self_keepdim = True, self_size = (2, 2),
          self_flags = \<lparr>flag_resample = Resample ''NEAREST'', flag_cropping_mode = ''slice'',
                        flag_align_corners = False, flag_size = (2, 2)\<rparr>\<rparr>"
    by (simp add: CenterCrop_init_def)
  show ?thesis
    using CenterCrop_same_on_batch [OF i, of no_warp "\<lambda>k. 0" inputs2 "[''src'' \<mapsto> corners2]" None]
      i
    by (simp add: slice_shared_corners2)
qed

subsection \<open>The transform\<close>

text \<open>
  C6, as amended. For every input of batch size \<open>B\<close> and every parameter mapping whose
  src and dst hold \<open>B\<close> rows each, or one row each, \<open>compute_transformation\<close> solves
  one 3 x 3 transform for each row and expands one row across the batch, so the result
  has shape \<open>(B, 3, 3)\<close>; when every row holds the same correspondence (as the rows of
  the generator do), all \<open>B\<close> matrices are equal to the solve of this correspondence.
  That the solve of a row is a 3 x 3 matrix is what the spec says of the solver.
\<close>

theorem compute_transformation_batch:
  assumes "params ''src'' = Some src" and "params ''dst'' = Some dst"
      and "length src = length dst"
      and "length src = dimB input \<or> length src = 1"
      and "list_all (\<lambda>(s, d). is_3x3 (solve s d)) (zip src dst)"
  shows "\<exists>tr. compute_transformation solve input params = Inr tr \<and>
              length tr = dimB input \<and> list_all is_3x3 tr \<and>
              (src = replicate (length src) s0 \<and> dst = replicate (length dst) d0 \<longrightarrow>
                 tr = replicate (dimB input) (solve s0 d0))"
proof -
  define T where "T = map (\<lambda>(s, d). solve s d) (zip src dst)"
  have gpt: "get_perspective_transform solve src dst = Inr T"
    using assms(3) by (simp add: get_perspective_transform_def T_def)
  have len: "length T = length src"
    using assms(3) by (simp add: T_def)
  have all3: "list_all is_3x3 T"
    using assms(5) by (simp add: T_def list_all_iff split_beta)
  have uni: "T = replicate (length src) (solve s0 d0)"
    if "src = replicate (length src) s0 \<and> dst = replicate (length dst) d0"
  proof -
    have "zip src dst = replicate (length src) (s0, d0)"
      using that assms(3) by (metis zip_replicate min.idem)
    then show ?thesis by (simp add: T_def)
  qed
  have ct: "compute_transformation solve input params = expand_batch (dimB input) T"
    by (simp add: compute_transformation_def assms(1,2) gpt)
  show ?thesis
  proof (cases "length src = dimB input")
    case True
    then have "expand_batch (dimB input) T = Inr T"
      using len by (simp add: expand_batch_def)
    then show ?thesis
      using ct len all3 True uni by auto
  next
    case False
    then have one: "length src = 1" using assms(4) by simp
    then obtain m where m: "T = [m]"
      using len by (metis One_nat_def length_0_conv length_Suc_conv)
    have c: "expand_batch (dimB input) T = Inr (replicate (dimB input) m)"
      using False one len by (simp add: expand_batch_def m)
    have "is_3x3 m" using all3 m by simp
    then have "list_all is_3x3 (replicate (dimB input) m)"
      by (simp add: list_all_iff)
    moreover have "m = solve s0 d0"
      if "src = replicate (length src) s0 \<and> dst = replicate (length dst) d0"
      using uni [OF that] m one by simp
    ultimately show ?thesis
      using c ct by auto
  qed
qed

text \<open>
  Parameters generated for one sample, replayed on a batch of two, are expanded to two
  equal matrices; the two rows of \<open>corners2\<close> give two matrices of shape \<open>(3, 3)\<close>.
\<close>

theorem compute_transformation_batch_witness:
  "compute_transformation translation_scale inputs2 (center_crop_generator 1 4 4 (2, 2)) =
     Inr [[[1, 0, - 1], [0, 1, - 1], [0, 0, 1]],
          [[1, 0, - 1], [0, 1, - 1], [0, 0, 1]]] \<and>
   (\<exists>tr. compute_transformation translation_scale inputs2
            [''src'' \<mapsto> corners2,
             ''dst'' \<mapsto> [((0, 0), (1, 0), (1, 1), (0, 1)), ((0, 0), (1, 0), (1, 1), (0, 1))]] =
            Inr tr \<and>
          length tr = 2 \<and> list_all is_3x3 tr)"
proof -
  have d: "dimB inputs2 = 2" by (simp add: inputs2_def)
  have t: "translation_scale ((1, 1), (2, 1), (2, 2), (1, 2)) ((0, 0), (1, 0), (1, 1), (0, 1)) =
           [[1, 0, - 1], [0, 1, - 1], [0, 0, 1]]"
    by (simp add: translation_scale_def)
  have r: "replicate 2 x = [x, x]" for x :: "real list list"
    by (simp add: numeral_2_eq_2)
  have a: "compute_transformation translation_scale inputs2 (center_crop_generator 1 4 4 (2, 2)) =
     Inr [[[1, 0, - 1], [0, 1, - 1], [0, 0, 1]],
          [[1, 0, - 1], [0, 1, - 1], [0, 0, 1]]]"
    using compute_transformation_batch [where params = "center_crop_generator 1 4 4 (2, 2)"
        and src = "[((1, 1), (2, 1), (2, 2), (1, 2))]" and dst = "[((0, 0), (1, 0), (1, 1), (0, 1))]"
        and input = inputs2 and solve = translation_scale
        and ?s0.0 = "((1, 1), (2, 1), (2, 2), (1, 2))" and ?d0.0 = "((0, 0), (1, 0), (1, 1), (0, 1))"]
    by (auto simp: generator_src generator_dst d t r is_3x3_translation_scale)
  have l: "length corners2 = 2" by (simp add: corners2_def)
  have b: "\<exists>tr. compute_transformation translation_scale inputs2
            [''src'' \<mapsto> corners2,
             ''dst'' \<mapsto> [((0, 0), (1, 0), (1, 1), (0, 1)), ((0, 0), (1, 0), (1, 1), (0, 1))]] =
            Inr tr \<and>
          length tr = 2 \<and> list_all is_3x3 tr"
    using compute_transformation_batch [where params = "[''src'' \<mapsto> corners2,
             ''dst'' \<mapsto> [((0, 0), (1, 0), (1, 1), (0, 1)), ((0, 0), (1, 0), (1, 1), (0, 1))]]"
        and src = corners2
        and dst = "[((0, 0), (1, 0), (1, 1), (0, 1)), ((0, 0), (1, 0), (1, 1), (0, 1))]"
        and input = inputs2 and solve = translation_scale
        and ?s0.0 = "((0, 0), (1, 0), (1, 1), (0, 1))" and ?d0.0 = "((0, 0), (1, 0), (1, 1), (0, 1))"]
    by (simp add: l d list_all_iff is_3x3_translation_scale) blast
  show ?thesis using a b by simp
qed

text \<open>
  The claim as stated, for every parameter mapping, fails twice: the two rows of
  \<open>corners2\<close> give two matrices that differ, and parameters generated for a batch of
  three fail to expand to a batch of two.
\<close>

theorem compute_transformation_per_row:
  "compute_transformation translation_scale inputs2
     [''src'' \<mapsto> corners2,
      ''dst'' \<mapsto> [((0, 0), (1, 0), (1, 1), (0, 1)), ((0, 0), (1, 0), (1, 1), (0, 1))]] =
     Inr [[[1, 0, 0], [0, 1, 0], [0, 0, 1]],
          [[1, 0, - 2], [0, 1, - 2], [0, 0, 1]]] \<and>
   [[1, 0, 0], [0, 1, 0], [0, 0, 1]] \<noteq> [[1, 0, - 2], [0, 1, - 2], [0, 0, 1 :: real]] \<and>
   compute_transformation translation_scale inputs2 (center_crop_generator 3 4 4 (2, 2)) =
     Inl RuntimeError"
  by (simp add: compute_transformation_def get_perspective_transform_def expand_batch_def
      corners2_def inputs2_def translation_scale_def generator_src generator_dst)

subsection \<open>Determinism\<close>

text \<open>
  C9. Two runs of a method of a constructed instance on the same input, parameters,
  transform, size and overrides return the same result, whatever the memory of
  \<open>torch.empty\<close> holds in each run, when the collaborators give the same values in both
  runs at the calls the method makes: the kernel at the cells of the output grid for
  this input and the first two rows of this transform, the solve at the rows of these
  parameters. In slice mode \<open>apply_transform\<close> calls no collaborator and does not look
  at the transform: its result is the same whatever they are. None of the three methods
  writes an attribute of the instance.
\<close>

theorem replay_identical:
  assumes "CenterCrop_init Resample_get size1 align_corners resample return_transform p keepdim
             cropping_mode = Inr self"
  shows "(cropping_mode = ''slice'' \<longrightarrow>
            apply_transform wp u self input params t = apply_transform wp' u' self input params t') \<and>
         ((\<forall>tr m pm ac b c y x.
              t = Some tr \<and> b < dimB input \<and> c < dimC input \<and>
              y < nat (fst (self_size self)) \<and> x < nat (snd (self_size self)) \<longrightarrow>
              wp input (map (take 2) tr) m pm ac b c y x =
              wp' input (map (take 2) tr) m pm ac b c y x) \<longrightarrow>
            apply_transform wp u self input params t = apply_transform wp' u' self input params t) \<and>
         ((\<forall>src dst s d.
              params ''src'' = Some src \<and> params ''dst'' = Some dst \<and> (s, d) \<in> set (zip src dst) \<longrightarrow>
              solve s d = solve' s d) \<longrightarrow>
            compute_transformation solve input params =
            compute_transformation solve' input params) \<and>
         ((\<forall>tr m pm ac b c y x.
              t = Some tr \<and> b < dimB input \<and> c < dimC input \<and>
              y < nat (fst (case size2 of None \<Rightarrow> self_size self | Some s \<Rightarrow> s)) \<and>
              x < nat (snd (case size2 of None \<Rightarrow> self_size self | Some s \<Rightarrow> s)) \<longrightarrow>
              wp input (map (take 2) tr) m pm ac b c y x =
              wp' input (map (take 2) tr) m pm ac b c y x) \<longrightarrow>
            inverse_transform wp self input t size2 kwargs =
            inverse_transform wp' self input t size2 kwargs)"
proof (intro conjI impI)
  note f = CenterCrop_init_fields [OF assms]
  show "apply_transform wp u self input params t = apply_transform wp' u' self input params t'"
    if "cropping_mode = ''slice''"
    using that f(1,4) by (simp add: apply_transform_def split: option.splits)
next
  note f = CenterCrop_init_fields [OF assms]
  assume k: "\<forall>tr m pm ac b c y x.
              t = Some tr \<and> b < dimB input \<and> c < dimC input \<and>
              y < nat (fst (self_size self)) \<and> x < nat (snd (self_size self)) \<longrightarrow>
              wp input (map (take 2) tr) m pm ac b c y x =
              wp' input (map (take 2) tr) m pm ac b c y x"
  have "crop_by_transform_mat wp input (map (take 2) tr) (self_size self) m pm ac =
        crop_by_transform_mat wp' input (map (take 2) tr) (self_size self) m pm ac"
    if "t = Some tr" for tr m pm ac
    using k that by (intro crop_by_transform_mat_cong) blast
  then show "apply_transform wp u self input params t = apply_transform wp' u' self input params t"
    using f(1) by (simp add: apply_transform_def split: option.splits)
next
  assume k: "\<forall>src dst s d.
              params ''src'' = Some src \<and> params ''dst'' = Some dst \<and> (s, d) \<in> set (zip src dst) \<longrightarrow>
              solve s d = solve' s d"
  have "get_perspective_transform solve src dst = get_perspective_transform solve' src dst"
    if "params ''src'' = Some src" "params ''dst'' = Some dst" for src dst
    using k that by (intro get_perspective_transform_cong) blast
  then show "compute_transformation solve input params =
             compute_transformation solve' input params"
    by (simp add: compute_transformation_def split: option.splits)
next
  assume k: "\<forall>tr m pm ac b c y x.
              t = Some tr \<and> b < dimB input \<and> c < dimC input \<and>
              y < nat (fst (case size2 of None \<Rightarrow> self_size self | Some s \<Rightarrow> s)) \<and>
              x < nat (snd (case size2 of None \<Rightarrow> self_size self | Some s \<Rightarrow> s)) \<longrightarrow>
              wp input (map (take 2) tr) m pm ac b c y x =
              wp' input (map (take 2) tr) m pm ac b c y x"
  have "crop_by_transform_mat wp input (map (take 2) tr)
          (case size2 of None \<Rightarrow> self_size self | Some s \<Rightarrow> s) m pm ac =
        crop_by_transform_mat wp' input (map (take 2) tr)
          (case size2 of None \<Rightarrow> self_size self | Some s \<Rightarrow> s) m pm ac"
    if "t = Some tr" for tr m pm ac
    using k that by (intro crop_by_transform_mat_cong) blast
  then show "inverse_transform wp self input t size2 kwargs =
             inverse_transform wp' self input t size2 kwargs"
    by (simp add: inverse_transform_def Let_def split: option.splits)
qed

text \<open>
  On the instance of the docstring: the slice under two kernels, two memories and two
  transforms; the warp and the inverse under two kernels that differ outside the output
  grid; the transform under two solves that differ outside the rows of the parameters.
\<close>

theorem replay_identical_witness:
  "apply_transform no_warp (\<lambda>k. 7) (aug ''slice'') inputs (center_crop_generator 1 4 4 (2, 2)) None =
   apply_transform bilinear_zeros (\<lambda>k. 9) (aug ''slice'') inputs (center_crop_generator 1 4 4 (2, 2))
     (Some [[[1, 0, - 1], [0, 1, - 1], [0, 0, 1]]]) \<and>
   apply_transform bilinear_zeros (\<lambda>k. 7) (aug ''resample'') inputs
     (center_crop_generator 1 4 4 (2, 2)) (Some [[[1, 0, - 1], [0, 1, - 1], [0, 0, 1]]]) =
   apply_transform (other_warp 2 2) (\<lambda>k. 9) (aug ''resample'') inputs
     (center_crop_generator 1 4 4 (2, 2)) (Some [[[1, 0, - 1], [0, 1, - 1], [0, 0, 1]]]) \<and>
   compute_transformation translation_scale inputs (center_crop_generator 1 4 4 (2, 2)) =
   compute_transformation other_solve inputs (center_crop_generator 1 4 4 (2, 2)) \<and>
   inverse_transform bilinear_zeros (aug ''resample'') cropped
     (Some [[[1, 0, 1], [0, 1, 1], [0, 0, 1]]]) (Some (4, 4)) Map.empty =
   inverse_transform (other_warp 4 4) (aug ''resample'') cropped
     (Some [[[1, 0, 1], [0, 1, 1], [0, 0, 1]]]) (Some (4, 4)) Map.empty"
proof -
  have sz: "self_size (aug m) = (2, 2)" for m by (simp add: aug_def)
  have a: "apply_transform no_warp (\<lambda>k. 7) (aug ''slice'') inputs
             (center_crop_generator 1 4 4 (2, 2)) None =
           apply_transform bilinear_zeros (\<lambda>k. 9) (aug ''slice'') inputs
             (center_crop_generator 1 4 4 (2, 2)) (Some [[[1, 0, - 1], [0, 1, - 1], [0, 0, 1]]])"
    using replay_identical [OF CenterCrop_init_aug, where cropping_mode = "''slice''"
        and wp = no_warp and wp' = bilinear_zeros and u = "\<lambda>k. 7" and u' = "\<lambda>k. 9"
        and input = inputs and params = "center_crop_generator 1 4 4 (2, 2)"
        and t = None and t' = "Some [[[1, 0, - 1], [0, 1, - 1], [0, 0, 1]]]"]
    by simp
  have b: "apply_transform bilinear_zeros (\<lambda>k. 7) (aug ''resample'') inputs
             (center_crop_generator 1 4 4 (2, 2)) (Some [[[1, 0, - 1], [0, 1, - 1], [0, 0, 1]]]) =
           apply_transform (other_warp 2 2) (\<lambda>k. 9) (aug ''resample'') inputs
             (center_crop_generator 1 4 4 (2, 2)) (Some [[[1, 0, - 1], [0, 1, - 1], [0, 0, 1]]])"
    using replay_identical [OF CenterCrop_init_aug, where cropping_mode = "''resample''"
        and wp = bilinear_zeros and wp' = "other_warp 2 2" and u = "\<lambda>k. 7" and u' = "\<lambda>k. 9"
        and input = inputs and params = "center_crop_generator 1 4 4 (2, 2)"
        and t = "Some [[[1, 0, - 1], [0, 1, - 1], [0, 0, 1]]]"]
    by (simp add: sz other_warp_def)
  have c: "compute_transformation translation_scale inputs (center_crop_generator 1 4 4 (2, 2)) =
           compute_transformation other_solve inputs (center_crop_generator 1 4 4 (2, 2))"
    using replay_identical [OF CenterCrop_init_aug, where solve = translation_scale
        and solve' = other_solve and input = inputs
        and params = "center_crop_generator 1 4 4 (2, 2)"]
    by (simp add: generator_src generator_dst other_solve_def)
  have d: "inverse_transform bilinear_zeros (aug ''resample'') cropped
             (Some [[[1, 0, 1], [0, 1, 1], [0, 0, 1]]]) (Some (4, 4)) Map.empty =
           inverse_transform (other_warp 4 4) (aug ''resample'') cropped
             (Some [[[1, 0, 1], [0, 1, 1], [0, 0, 1]]]) (Some (4, 4)) Map.empty"
    using replay_identical [OF CenterCrop_init_aug, where cropping_mode = "''resample''"
        and wp = bilinear_zeros and wp' = "other_warp 4 4"
        and input = cropped and t = "Some [[[1, 0, 1], [0, 1, 1], [0, 0, 1]]]"
        and ?size2.0 = "Some (4, 4)" and kwargs = Map.empty]
    by (simp add: other_warp_def)
  show ?thesis using a b c d by simp
qed

end
